theory Spec2Isabelle
  imports Complex_Main "HOL-Library.Sublist"
begin

section \<open>JavaScript values\<close>

text \<open>
  The widget is the Preact component \<open>Dropdown\<close> of \<open>src/unnamed/part_000\<close> (the
  later revision of \<open>src/dropdown.jsx\<close>). Its functions are embedded one by one, under
  their own names. A JavaScript exception is the left injection of a sum.
\<close>

datatype js_error = TypeError

text \<open>
  The values a \<open>value\<close> property, a \<open>className\<close> property or the committed value can
  hold: \<open>undefined\<close>, \<open>null\<close> or a string. Strings are lists of code units; the model
  covers the ASCII range.
\<close>

datatype jsval = Undefined | Null | Str string

definition truthy :: "jsval \<Rightarrow> bool" where
  "truthy v = (case v of Str s \<Rightarrow> s \<noteq> [] | _ \<Rightarrow> False)"

text \<open>\<open>a || b\<close>\<close>

definition js_or :: "jsval \<Rightarrow> jsval \<Rightarrow> jsval" where
  "js_or a b = (if truthy a then a else b)"

text \<open>The string a value turns into when it is concatenated with a string.\<close>

definition to_str :: "jsval \<Rightarrow> string" where
  "to_str v = (case v of Undefined \<Rightarrow> ''undefined'' | Null \<Rightarrow> ''null'' | Str s \<Rightarrow> s)"

section \<open>Strings: \<open>toLowerCase\<close>, \<open>trim\<close>, \<open>includes\<close>\<close>

definition lower_char :: "char \<Rightarrow> char" where
  "lower_char c =
     (let n = (of_char c :: nat) in if 65 \<le> n \<and> n \<le> 90 then char_of (n + 32) else c)"

definition toLowerCase :: "string \<Rightarrow> string" where
  "toLowerCase s = map lower_char s"

text \<open>White space and line terminators of the ASCII range: TAB, LF, VT, FF, CR, SP.\<close>

definition is_space :: "char \<Rightarrow> bool" where
  "is_space c = (let n = (of_char c :: nat) in (9 \<le> n \<and> n \<le> 13) \<or> n = 32)"

definition trim :: "string \<Rightarrow> string" where
  "trim s = rev (dropWhile is_space (rev (dropWhile is_space s)))"

text \<open>\<open>s.includes(t)\<close>: \<open>t\<close> occurs in \<open>s\<close> as a contiguous run.\<close>

fun str_includes :: "string \<Rightarrow> string \<Rightarrow> bool" where
  "str_includes [] t = (t = [])"
| "str_includes (c # s) t = (prefix t (c # s) \<or> str_includes s t)"

section \<open>Option nodes\<close>

text \<open>
  What can stand in the \<open>children\<close> array, or in \<open>props.children\<close> of an element:
  \<^item> \<open>Nullish\<close>: \<open>null\<close> or \<open>undefined\<close> (reading a property of it throws);
  \<^item> \<open>Falsy\<close>: \<open>false\<close>, \<open>0\<close>, \<open>NaN\<close> (falsy, and every property of it is \<open>undefined\<close>);
  \<^item> \<open>Text s\<close>: a string;
  \<^item> \<open>Opaque\<close>: any other value that has no \<open>props\<close> (\<open>true\<close>, a non-zero number, a
    plain object);
  \<^item> \<open>Arr xs\<close>: an array;
  \<^item> \<open>Element value className onMouseDown children\<close>: a virtual DOM node, with the
    four entries of its \<open>props\<close> that the component reads or writes.
\<close>

datatype handler = HandleClick | Foreign

datatype vnode =
    Nullish
  | Falsy
  | Text string
  | Opaque
  | Arr "vnode list"
  | Element (p_value: jsval) (p_className: jsval) (p_onMouseDown: "handler option")
      (p_children: vnode)

text \<open>
  \<open>textContent(elem)\<close>: the empty string for a falsy \<open>elem\<close>, the string itself for a
  string, otherwise the text of \<open>elem.props && elem.props.children\<close>, joined when that
  is an array. A value without \<open>props\<close> has \<open>undefined\<close> children, hence no text.
\<close>

fun textContent :: "vnode \<Rightarrow> string" where
  "textContent Nullish = []"
| "textContent Falsy = []"
| "textContent (Text s) = s"
| "textContent (Element v cl h (Arr xs)) = concat (map textContent xs)"
| "textContent (Element v cl h k) = textContent k"
| "textContent Opaque = []"
| "textContent (Arr xs) = []"

section \<open>The widget state\<close>

text \<open>
  The object \<open>state\<close> of \<open>Dropdown\<close>. \<open>onChange\<close> records whether the caller passed a
  change callback; the calls a handler makes to it are returned as a list of the
  arguments, in order.
\<close>

record state =
  onChange :: bool
  alwaysExpanded :: bool
  expanded :: bool
  filter_st :: string
  value_st :: jsval

section \<open>\<open>FilteredChildren\<close>\<close>

text \<open>
  The argument \<open>className: c.props.className + ' ' + style.option\<close> of the clone.
  \<open>style.option\<close> comes from \<open>dropdown.css\<close>, which is not part of the sources: it is the
  parameter \<open>style_option\<close>. Reading \<open>c.props.className\<close> throws when \<open>c\<close> has no
  \<open>props\<close>.
\<close>

definition className_arg :: "string \<Rightarrow> vnode \<Rightarrow> js_error + string" where
  "className_arg style_option c =
     (case c of
        Element v cl h k \<Rightarrow> Inr (to_str cl @ '' '' @ style_option)
      | _ \<Rightarrow> Inl TypeError)"

text \<open>\<open>cloneElement(c, {onMouseDown: h, className: cls})\<close>\<close>

definition cloneElement :: "vnode \<Rightarrow> handler \<Rightarrow> string \<Rightarrow> vnode" where
  "cloneElement c h cls =
     (case c of
        Element v cl h0 k \<Rightarrow> Element v (Str cls) (Some h) k
      | _ \<Rightarrow> c)"

text \<open>The body of \<open>children.forEach\<close>, with the array \<open>options\<close> it pushes to.\<close>

fun forEach_push ::
  "string \<Rightarrow> state \<Rightarrow> bool \<Rightarrow> vnode list \<Rightarrow> vnode list \<Rightarrow> js_error + vnode list" where
  "forEach_push style_option st disableFiltering [] options = Inr options"
| "forEach_push style_option st disableFiltering (c # cs) options =
     (let compare = textContent c in
      if str_includes compare (trim (toLowerCase (filter_st st))) \<or> disableFiltering
      then (case className_arg style_option c of
              Inl e \<Rightarrow> Inl e
            | Inr cls \<Rightarrow>
                forEach_push style_option st disableFiltering cs
                  (options @ [cloneElement c HandleClick cls]))
      else forEach_push style_option st disableFiltering cs options)"

definition FilteredChildren ::
  "string \<Rightarrow> vnode \<Rightarrow> state \<Rightarrow> bool \<Rightarrow> js_error + vnode list" where
  "FilteredChildren style_option children st disableFiltering =
     (case children of
        Arr cs \<Rightarrow>
          if length cs < 1 then Inr []
          else forEach_push style_option st disableFiltering cs []
      | _ \<Rightarrow> Inr [])"

text \<open>
  The test of the earlier revision (\<open>src/dropdown.jsx\<close>, line 134), for an option whose
  \<open>props.children\<close> is an array of strings:
  \<open>c.props.children.join('').toLowerCase().trim().includes(state.filter.toLowerCase().trim())\<close>.
\<close>

definition legacy_test :: "string list \<Rightarrow> state \<Rightarrow> bool" where
  "legacy_test strs st =
     str_includes (trim (toLowerCase (concat strs))) (trim (toLowerCase (filter_st st)))"

text \<open>
  The candidate rule in the words of the specification: the lowercased and trimmed display
  text contains the lowercased and trimmed filter text.
\<close>

definition spec_is_candidate :: "string \<Rightarrow> string \<Rightarrow> bool" where
  "spec_is_candidate displayText filterText =
     str_includes (trim (toLowerCase displayText)) (trim (toLowerCase filterText))"

section \<open>\<open>findChildByValue\<close> and the initial filter text\<close>

record retVal =
  ret_child :: "vnode option"
  ret_text :: string

text \<open>
  The body of \<open>children.forEach\<close> in \<open>findChildByValue\<close>: \<open>!c.props\<close> throws on \<open>null\<close>
  and \<open>undefined\<close>, skips every other value without \<open>props\<close>, and a match overwrites
  \<open>retVal\<close>.
\<close>

fun forEach_find :: "jsval \<Rightarrow> vnode list \<Rightarrow> retVal \<Rightarrow> js_error + retVal" where
  "forEach_find v [] r = Inr r"
| "forEach_find v (c # cs) r =
     (case c of
        Nullish \<Rightarrow> Inl TypeError
      | Element cv cl h k \<Rightarrow>
          if cv = v
          then forEach_find v cs \<lparr>ret_child = Some c, ret_text = textContent c\<rparr>
          else forEach_find v cs r
      | _ \<Rightarrow> forEach_find v cs r)"

definition findChildByValue :: "vnode \<Rightarrow> jsval \<Rightarrow> js_error + retVal" where
  "findChildByValue children v =
     (case children of
        Arr cs \<Rightarrow>
          if length cs < 1 then Inr \<lparr>ret_child = None, ret_text = []\<rparr>
          else forEach_find v cs \<lparr>ret_child = None, ret_text = []\<rparr>
      | _ \<Rightarrow> Inr \<lparr>ret_child = None, ret_text = []\<rparr>)"

text \<open>
  The first lines of \<open>Dropdown\<close>:
  \<open>let initialFilter = ""; if(value) initialFilter = findChildByValue(children, value).text\<close>.
\<close>

definition initialFilter :: "vnode \<Rightarrow> jsval \<Rightarrow> js_error + string" where
  "initialFilter children v =
     (if truthy v
      then (case findChildByValue children v of
              Inl e \<Rightarrow> Inl e
            | Inr r \<Rightarrow> Inr (ret_text r))
      else Inr [])"

text \<open>The state of the first render: the three \<open>useState\<close> cells and the two properties.\<close>

definition Dropdown_init :: "vnode \<Rightarrow> jsval \<Rightarrow> bool \<Rightarrow> bool \<Rightarrow> js_error + state" where
  "Dropdown_init children v on_change expanded_prop =
     (case initialFilter children v of
        Inl e \<Rightarrow> Inl e
      | Inr f \<Rightarrow>
          Inr \<lparr>onChange = on_change, alwaysExpanded = expanded_prop, expanded = False,
               filter_st = f, value_st = js_or v (Str [])\<rparr>)"

text \<open>
  The lookup in the words of the specification: the display text of the first option, in
  list order, whose value is \<open>v\<close>; the empty string when there is none.
\<close>

definition has_value :: "jsval \<Rightarrow> vnode \<Rightarrow> bool" where
  "has_value v c = (case c of Element cv cl h k \<Rightarrow> cv = v | _ \<Rightarrow> False)"

definition spec_first_match_text :: "vnode list \<Rightarrow> jsval \<Rightarrow> string" where
  "spec_first_match_text cs v =
     (case find (has_value v) cs of None \<Rightarrow> [] | Some c \<Rightarrow> textContent c)"

text \<open>What the loop computes: the display text of the last such option.\<close>

definition last_match_text :: "vnode list \<Rightarrow> jsval \<Rightarrow> string" where
  "last_match_text cs v =
     (case find (has_value v) (rev cs) of None \<Rightarrow> [] | Some c \<Rightarrow> textContent c)"

section \<open>The handlers\<close>

text \<open>
  The element an event comes from: its \<open>value\<close> property, the result of
  \<open>getAttribute('value')\<close> (\<open>null\<close> when the attribute is missing) and its \<open>innerText\<close>.
\<close>

record target =
  target_value :: jsval
  getAttribute_value :: jsval
  innerText :: string

text \<open>\<open>handleClick\<close> of \<open>FilteredChildren\<close>: the new state and the calls of \<open>onChange\<close>.\<close>

definition handleClick :: "target \<Rightarrow> state \<Rightarrow> state \<times> jsval list" where
  "handleClick tgt st =
     (let v = js_or (target_value tgt) (getAttribute_value tgt) in
      (st\<lparr>value_st := v, filter_st := innerText tgt, expanded := False\<rparr>,
       if onChange st then [v] else []))"

text \<open>The \<open>onClick\<close> of the clear button.\<close>

definition btn_clear_onClick :: "state \<Rightarrow> state \<times> jsval list" where
  "btn_clear_onClick st =
     (let st1 = (if filter_st st \<noteq> [] then st\<lparr>filter_st := []\<rparr> else st) in
      if value_st st \<noteq> Str []
      then (st1\<lparr>value_st := Str []\<rparr>, if onChange st then [Str []] else [])
      else (st1, []))"

section \<open>Geometry\<close>

text \<open>
  The measurements \<open>resizeToBounds\<close> reads: \<open>inputBBox.width\<close>, \<open>optionsBBox.y\<close>,
  \<open>domElement.options.scrollHeight\<close> and \<open>window.innerHeight\<close>. Numbers are reals: the
  rounding of doubles is not modelled.
\<close>

record metrics =
  inputBBox_width :: real
  optionsBBox_y :: real
  scrollHeight :: real
  innerHeight :: real

text \<open>A length of the inline style: \<open>n + "px"\<close>, or the empty string (no override).\<close>

datatype css_length = Unset | Px real

record panel_style =
  style_width :: css_length
  style_height :: css_length

text \<open>
  The assignment \<open>style.width = n + "px"\<close> (or \<open>style.height\<close>) on an element whose
  inline length is \<open>old\<close>: a negative length is not a valid width or height, the style
  object drops the assignment and the length stays as it was.
\<close>

definition set_length :: "css_length \<Rightarrow> real \<Rightarrow> css_length" where
  "set_length old n = (if n < 0 then old else Px n)"

text \<open>
  \<open>resizeToBounds\<close> has no guard on the sign of the two lengths it assigns; the
  assignment of the empty string always clears the height.
\<close>

definition resizeToBounds :: "metrics \<Rightarrow> panel_style \<Rightarrow> panel_style" where
  "resizeToBounds m s =
     (let height = scrollHeight m;
          s1 = s\<lparr>style_width := set_length (style_width s) (inputBBox_width m - 1)\<rparr>
      in if height + optionsBBox_y m > innerHeight m - 10
         then s1\<lparr>style_height :=
                 set_length (style_height s1) (innerHeight m - 10 - optionsBBox_y m)\<rparr>
         else s1\<lparr>style_height := Unset\<rparr>)"

text \<open>
  \<open>handleInputChange\<close>, the handler of both \<open>onInput\<close> and \<open>onFocus\<close>; \<open>t\<close> is
  \<open>evt.target.value\<close>. It ends with a call of \<open>resizeToBounds\<close>.
\<close>

definition handleInputChange ::
  "metrics \<Rightarrow> string \<Rightarrow> state \<times> panel_style \<Rightarrow> state \<times> panel_style" where
  "handleInputChange m t w =
     (let st = fst w;
          st1 = (if t \<noteq> [] \<or> alwaysExpanded st
                 then st\<lparr>expanded := True\<rparr>
                 else st\<lparr>expanded := False\<rparr>);
          st2 = st1\<lparr>expanded := True\<rparr>;
          st3 = st2\<lparr>filter_st := t\<rparr>
      in (st3, resizeToBounds m (snd w)))"

section \<open>Notions used in the statements\<close>

text \<open>An entry with \<open>props\<close>: a virtual DOM node.\<close>

definition has_props :: "vnode \<Rightarrow> bool" where
  "has_props c = (case c of Element v cl h k \<Rightarrow> True | _ \<Rightarrow> False)"

text \<open>The test of the loop of \<open>FilteredChildren\<close> on one entry.\<close>

definition passes_filter :: "state \<Rightarrow> bool \<Rightarrow> vnode \<Rightarrow> bool" where
  "passes_filter st disableFiltering c =
     (str_includes (textContent c) (trim (toLowerCase (filter_st st))) \<or> disableFiltering)"

text \<open>The clone the loop pushes for an option: the handler and the marker class attached.\<close>

definition option_clone :: "string \<Rightarrow> vnode \<Rightarrow> vnode" where
  "option_clone style_option c =
     cloneElement c HandleClick (to_str (p_className c) @ '' '' @ style_option)"

text \<open>A children value that gets past the guard of line 160: an array with an entry.\<close>

definition nonempty_array :: "vnode \<Rightarrow> bool" where
  "nonempty_array children = (case children of Arr cs \<Rightarrow> cs \<noteq> [] | _ \<Rightarrow> False)"

text \<open>A value token that is resolved: a string, neither \<open>undefined\<close> nor \<open>null\<close>.\<close>

definition resolved :: "jsval \<Rightarrow> bool" where
  "resolved v = (case v of Str s \<Rightarrow> True | _ \<Rightarrow> False)"

text \<open>Concrete inputs: the options of the README, and a state with a change callback.\<close>

definition carrot :: vnode where
  "carrot = Element (Str ''1'') Undefined None (Text ''Carrot'')"

definition peanut :: vnode where
  "peanut = Element (Str ''2'') Undefined None (Text ''Peanut'')"

definition peanut_butter :: vnode where
  "peanut_butter = Element (Str ''2'') Undefined None (Text ''Peanut Butter'')"

definition idle :: state where
  "idle = \<lparr>onChange = True, alwaysExpanded = False, expanded = False, filter_st = [],
           value_st = Str []\<rparr>"

section \<open>Properties of the string functions\<close>

lemma str_includes_sublist: "str_includes s t \<longleftrightarrow> sublist t s"
  by (induction s) (auto simp: sublist_Cons_right)

lemma str_includes_Nil: "str_includes s []"
  by (cases s) simp_all

section \<open>The candidate filter\<close>

text \<open>
  On a list of elements the loop never throws: it pushes the clone of every entry that
  passes the test, in list order.
\<close>

lemma forEach_push_elements:
  "list_all has_props cs \<Longrightarrow>
   forEach_push so st df cs acc =
     Inr (acc @ map (option_clone so) (filter (passes_filter st df) cs))"
proof (induction cs arbitrary: acc)
  case Nil
  then show ?case by simp
next
  case (Cons c cs)
  from Cons.prems obtain v cl h k where c: "c = Element v cl h k"
    by (cases c) (simp_all add: has_props_def)
  from Cons.prems have rest: "list_all has_props cs"
    by simp
  have cls: "className_arg so c = Inr (to_str (p_className c) @ '' '' @ so)"
    by (simp add: c className_arg_def)
  show ?case
  proof (cases "passes_filter st df c")
    case True
    then have "forEach_push so st df (c # cs) acc =
        forEach_push so st df cs (acc @ [option_clone so c])"
      by (simp add: passes_filter_def cls option_clone_def)
    with True show ?thesis
      by (simp add: Cons.IH [OF rest])
  next
    case False
    then have "forEach_push so st df (c # cs) acc = forEach_push so st df cs acc"
      by (simp add: passes_filter_def)
    with False show ?thesis
      by (simp add: Cons.IH [OF rest])
  qed
qed

lemma FilteredChildren_elements:
  "list_all has_props cs \<Longrightarrow>
   FilteredChildren so (Arr cs) st df =
     Inr (map (option_clone so) (filter (passes_filter st df) cs))"
  by (cases cs) (simp_all add: FilteredChildren_def forEach_push_elements del: forEach_push.simps)

lemma option_clone_keeps:
  "has_props c \<Longrightarrow>
   p_value (option_clone so c) = p_value c \<and> p_children (option_clone so c) = p_children c
   \<and> textContent (option_clone so c) = textContent c"
  by (cases c; cases "p_children c")
    (simp_all add: has_props_def option_clone_def cloneElement_def)

lemma trim_lower_query: "trim (toLowerCase '' carrot '') = ''carrot''"
  by code_simp

lemma legacy_test_carrot: "legacy_test [''Carrot''] (idle\<lparr>filter_st := '' carrot ''\<rparr>)"
  by code_simp

text \<open>
  Without \<open>disableFiltering\<close>, an option is returned exactly when its display text as it
  is (neither lowercased nor trimmed) contains the lowercased, trimmed filter text.
\<close>

lemma FilteredChildren_enabled:
  "list_all has_props cs \<Longrightarrow>
   FilteredChildren so (Arr cs) st False =
     Inr (map (option_clone so)
       (filter (\<lambda>c. str_includes (textContent c) (trim (toLowerCase (filter_st st)))) cs))"
proof -
  have "passes_filter st False =
      (\<lambda>c. str_includes (textContent c) (trim (toLowerCase (filter_st st))))"
    by (rule ext) (simp add: passes_filter_def)
  then show "list_all has_props cs \<Longrightarrow> ?thesis"
    by (simp add: FilteredChildren_elements)
qed

text \<open>
  C1. Claimed: with filtering enabled an option is a candidate if and only if its
  lowercased and trimmed display text contains the lowercased and trimmed filter text, so
  that the option Carrot is returned for the filter text " carrot ". The loop of
  \<open>FilteredChildren\<close> lowercases and trims the filter text only: the option Carrot
  satisfies the rule of the claim and is not returned.
\<close>

theorem C1_display_text_not_lowercased:
  "FilteredChildren so (Arr [carrot]) (idle\<lparr>filter_st := '' carrot ''\<rparr>) False = Inr []
   \<and> spec_is_candidate (textContent carrot) '' carrot ''"
proof (rule conjI)
  have "\<not> str_includes ''Carrot'' ''carrot''"
    by code_simp
  then show "FilteredChildren so (Arr [carrot]) (idle\<lparr>filter_st := '' carrot ''\<rparr>) False = Inr []"
    by (simp add: FilteredChildren_def carrot_def trim_lower_query del: str_includes.simps)
  show "spec_is_candidate (textContent carrot) '' carrot ''"
    by code_simp
qed

text \<open>
  The same on the first two options of the README: no prefix of Carrot that the user can
  type selects it, since the typed text is lowercased and the capital letter is not.
\<close>

lemma capital_never_matches:
  "FilteredChildren so (Arr [carrot, peanut]) (idle\<lparr>filter_st := ''Car''\<rparr>) False = Inr []"
proof -
  have "trim (toLowerCase ''Car'') = ''car''"
    by code_simp
  moreover have "\<not> str_includes ''Carrot'' ''car''" "\<not> str_includes ''Peanut'' ''car''"
    by code_simp+
  ultimately show ?thesis
    by (simp add: FilteredChildren_def carrot_def peanut_def del: str_includes.simps)
qed

text \<open>
  C4. With \<open>disableFiltering\<close> set, and whatever the filter text, every option of the list
  is returned, in list order, once per occurrence: the result is the list of the clones
  of the options, and a clone has the value, the children and the display text of its
  option.
\<close>

theorem C4_filtering_disabled_returns_all:
  "list_all has_props cs \<Longrightarrow>
   FilteredChildren so (Arr cs) st True = Inr (map (option_clone so) cs)
   \<and> map p_value (map (option_clone so) cs) = map p_value cs
   \<and> map p_children (map (option_clone so) cs) = map p_children cs
   \<and> map textContent (map (option_clone so) cs) = map textContent cs"
proof -
  assume els: "list_all has_props cs"
  have all: "filter (passes_filter st True) cs = cs"
    by (simp add: passes_filter_def)
  have keep: "\<And>c. c \<in> set cs \<Longrightarrow> has_props c"
    using els by (simp add: list_all_iff)
  show ?thesis
    using FilteredChildren_elements [OF els, of so st True] option_clone_keeps keep
    by (simp add: all)
qed

theorem C4_filtering_disabled_witness:
  "list_all has_props [carrot, peanut, carrot]
   \<and> FilteredChildren ''option'' (Arr [carrot, peanut, carrot])
       (idle\<lparr>filter_st := ''zzz''\<rparr>) True =
     Inr [Element (Str ''1'') (Str ''undefined option'') (Some HandleClick) (Text ''Carrot''),
          Element (Str ''2'') (Str ''undefined option'') (Some HandleClick) (Text ''Peanut''),
          Element (Str ''1'') (Str ''undefined option'') (Some HandleClick) (Text ''Carrot'')]"
proof -
  have els: "list_all has_props [carrot, peanut, carrot]"
    by (simp add: has_props_def carrot_def peanut_def)
  show ?thesis
    using els C4_filtering_disabled_returns_all
      [OF els, of "''option''" "idle\<lparr>filter_st := ''zzz''\<rparr>"]
    by (simp add: option_clone_def cloneElement_def to_str_def carrot_def peanut_def)
qed

text \<open>
  What the guard of line 160 covers: a children value that is not an array with at least
  one entry (a missing collection, a single node, the empty array) gives no candidate.
\<close>

lemma FilteredChildren_guarded:
  "\<not> nonempty_array children \<Longrightarrow> FilteredChildren so children st df = Inr []"
  by (cases children) (simp_all add: nonempty_array_def FilteredChildren_def)

lemma FilteredChildren_guarded_examples:
  "FilteredChildren ''option'' Nullish idle False = Inr []"
  "FilteredChildren ''option'' carrot idle False = Inr []"
  "FilteredChildren ''option'' (Arr []) idle False = Inr []"
  by (simp_all add: FilteredChildren_guarded nonempty_array_def carrot_def)

text \<open>
  An entry without \<open>props\<close> that does not pass the test is skipped: the loop reads
  \<open>c.props.className\<close> of the entries that pass only.
\<close>

lemma entry_without_props_skipped:
  "FilteredChildren ''option'' (Arr [Falsy, carrot]) (idle\<lparr>filter_st := ''arr''\<rparr>) False =
     Inr [Element (Str ''1'') (Str ''undefined option'') (Some HandleClick) (Text ''Carrot'')]"
  by code_simp

text \<open>
  C5. Claimed: a missing, non-list, empty or otherwise malformed option collection gives
  the empty candidate sequence and never raises. On an array with an entry that is not an
  element the loop of \<open>FilteredChildren\<close> raises: the entry \<open>false\<close> of a conditional
  child has the empty display text, passes the empty filter text, and reading
  \<open>c.props.className\<close> throws a \<open>TypeError\<close>, alone or beside an option. The loop of
  \<open>findChildByValue\<close> skips the same entry (\<open>if(!c.props) return\<close>) and finds the option.
\<close>

theorem C5_entry_without_props_raises:
  "FilteredChildren ''option'' (Arr [Falsy]) idle False = Inl TypeError
   \<and> FilteredChildren ''option'' (Arr [Falsy, carrot]) idle False = Inl TypeError
   \<and> findChildByValue (Arr [Falsy]) (Str ''1'') = Inr \<lparr>ret_child = None, ret_text = []\<rparr>
   \<and> findChildByValue (Arr [Falsy, carrot]) (Str ''1'') =
       Inr \<lparr>ret_child = Some carrot, ret_text = ''Carrot''\<rparr>"
  by (simp add: FilteredChildren_def findChildByValue_def className_arg_def carrot_def
      idle_def trim_def toLowerCase_def)

section \<open>The initial filter text\<close>

lemma find_snoc:
  "find P (xs @ [y]) =
     (case find P xs of None \<Rightarrow> (if P y then Some y else None) | Some x \<Rightarrow> Some x)"
  by (induction xs) simp_all

text \<open>The loop keeps the last match: a later match overwrites an earlier one.\<close>

lemma forEach_find_last:
  "Nullish \<notin> set cs \<Longrightarrow>
   forEach_find v cs r =
     Inr (case find (has_value v) (rev cs) of
            None \<Rightarrow> r
          | Some c \<Rightarrow> \<lparr>ret_child = Some c, ret_text = textContent c\<rparr>)"
proof (induction cs arbitrary: r)
  case Nil
  then show ?case by simp
next
  case (Cons c cs)
  then have rest: "Nullish \<notin> set cs" and c: "c \<noteq> Nullish"
    by auto
  show ?case
  proof (cases "has_value v c")
    case True
    then obtain cl h k where "c = Element v cl h k"
      by (cases c) (simp_all add: has_value_def)
    then have "forEach_find v (c # cs) r =
        forEach_find v cs \<lparr>ret_child = Some c, ret_text = textContent c\<rparr>"
      by simp
    with True show ?thesis
      by (simp add: Cons.IH [OF rest] find_snoc split: option.split)
  next
    case False
    with c have "forEach_find v (c # cs) r = forEach_find v cs r"
      by (cases c) (simp_all add: has_value_def)
    with False show ?thesis
      by (simp add: Cons.IH [OF rest] find_snoc split: option.split)
  qed
qed

text \<open>
  C2. Claimed: for a non-falsy initial value the resolver returns the display text of the
  first option, in list order, whose value is the initial value. Amended: it returns the
  display text of the last such option (of the only one when the value is unique), and
  the empty string when the initial value is falsy or no option has it.
\<close>

theorem C2_initial_filter_is_last_match:
  "Nullish \<notin> set cs \<Longrightarrow>
   initialFilter (Arr cs) v = Inr (if truthy v then last_match_text cs v else [])"
proof -
  assume ok: "Nullish \<notin> set cs"
  have "findChildByValue (Arr cs) v =
      Inr (case find (has_value v) (rev cs) of
             None \<Rightarrow> \<lparr>ret_child = None, ret_text = []\<rparr>
           | Some c \<Rightarrow> \<lparr>ret_child = Some c, ret_text = textContent c\<rparr>)"
  proof (cases cs)
    case Nil
    then show ?thesis
      by (simp add: findChildByValue_def)
  next
    case (Cons c cs')
    then have "findChildByValue (Arr cs) v =
        forEach_find v cs \<lparr>ret_child = None, ret_text = []\<rparr>"
      by (simp add: findChildByValue_def del: forEach_find.simps)
    then show ?thesis
      by (simp only: forEach_find_last [OF ok])
  qed
  then show ?thesis
    by (simp add: initialFilter_def last_match_text_def split: option.split)
qed

theorem C2_initial_filter_witness:
  "Nullish \<notin> set [peanut, carrot, peanut_butter]
   \<and> initialFilter (Arr [peanut, carrot, peanut_butter]) (Str ''2'') = Inr ''Peanut Butter''
   \<and> initialFilter (Arr [peanut, carrot, peanut_butter]) (Str ''99'') = Inr []
   \<and> initialFilter (Arr [peanut, carrot, peanut_butter]) (Str []) = Inr []"
proof -
  have ok: "Nullish \<notin> set [peanut, carrot, peanut_butter]"
    by (simp add: peanut_def carrot_def peanut_butter_def)
  have t: "truthy (Str ''2'')" "truthy (Str ''99'')" "\<not> truthy (Str [])"
    by (simp_all add: truthy_def)
  have l: "last_match_text [peanut, carrot, peanut_butter] (Str ''2'') = ''Peanut Butter''"
    "last_match_text [peanut, carrot, peanut_butter] (Str ''99'') = []"
    by (simp_all add: last_match_text_def has_value_def peanut_def carrot_def
        peanut_butter_def)
  show ?thesis
    using ok t l
      C2_initial_filter_is_last_match [OF ok, of "Str ''2''"]
      C2_initial_filter_is_last_match [OF ok, of "Str ''99''"]
      C2_initial_filter_is_last_match [OF ok, of "Str []"]
    by simp
qed

text \<open>
  Two options with the value 2: the first in list order is Peanut, and the resolver
  returns Peanut Butter.
\<close>

theorem C2_first_match_counterexample:
  "spec_first_match_text [peanut, peanut_butter] (Str ''2'') = ''Peanut''
   \<and> initialFilter (Arr [peanut, peanut_butter]) (Str ''2'') = Inr ''Peanut Butter''
   \<and> initialFilter (Arr [peanut, peanut_butter]) (Str ''2'') \<noteq>
       Inr (spec_first_match_text [peanut, peanut_butter] (Str ''2''))"
  by (simp add: spec_first_match_text_def has_value_def initialFilter_def truthy_def
      findChildByValue_def peanut_def peanut_butter_def)

section \<open>The handlers\<close>

text \<open>
  \<open>getAttribute\<close> gives \<open>null\<close> or a string, so the value \<open>handleClick\<close> commits is
  \<open>null\<close> or a string: the missing value token reaches the callback as \<open>null\<close>.
\<close>

lemma handleClick_value_not_Undefined:
  "getAttribute_value tgt \<noteq> Undefined \<Longrightarrow> Undefined \<notin> set (snd (handleClick tgt st))"
  by (cases "target_value tgt") (auto simp: handleClick_def js_or_def truthy_def Let_def)

text \<open>
  C3. Claimed: activating a candidate whose value cannot be resolved updates the filter
  text and collapses the panel, and never hands an unresolved value to the change
  callback. Amended: when the \<open>value\<close> property of the target is falsy and it has no
  \<open>value\<close> attribute, \<open>handleClick\<close> sets the filter text to the inner text, collapses
  the panel, commits \<open>null\<close> and, when a change callback is given, calls it once with
  \<open>null\<close>.
\<close>

theorem C3_unresolved_value_commits_null:
  "\<not> truthy (target_value tgt) \<Longrightarrow> getAttribute_value tgt = Null \<Longrightarrow>
   handleClick tgt st =
     (st\<lparr>value_st := Null, filter_st := innerText tgt, expanded := False\<rparr>,
      if onChange st then [Null] else [])"
  by (simp add: handleClick_def js_or_def)

theorem C3_unresolved_value_witness:
  "\<not> truthy Undefined
   \<and> handleClick \<lparr>target_value = Undefined, getAttribute_value = Null,
        innerText = ''Peanut''\<rparr> (idle\<lparr>expanded := True\<rparr>) =
      (\<lparr>onChange = True, alwaysExpanded = False, expanded = False, filter_st = ''Peanut'',
        value_st = Null\<rparr>, [Null])"
proof -
  have t: "\<not> truthy Undefined"
    by (simp add: truthy_def)
  show ?thesis
    using t C3_unresolved_value_commits_null
      [of "\<lparr>target_value = Undefined, getAttribute_value = Null, innerText = ''Peanut''\<rparr>"
        "idle\<lparr>expanded := True\<rparr>"]
    by (simp add: idle_def)
qed

text \<open>
  A link without a \<open>value\<close> attribute, activated in a widget that has a change callback:
  the callback is called, with a value that is not resolved.
\<close>

theorem C3_callback_gets_unresolved_counterexample:
  "snd (handleClick \<lparr>target_value = Undefined, getAttribute_value = Null,
        innerText = ''Peanut''\<rparr> idle) = [Null]
   \<and> \<not> list_all resolved (snd (handleClick \<lparr>target_value = Undefined,
        getAttribute_value = Null, innerText = ''Peanut''\<rparr> idle))"
  by (simp add: handleClick_def js_or_def truthy_def idle_def resolved_def)

text \<open>
  C6. The clear button leaves the filter text and the committed value empty, and calls the
  change callback, with the empty string, exactly when the committed value was not the
  empty string before (and a callback was given): nothing is called when the committed
  value is already empty.
\<close>

theorem C6_clear_empties_and_notifies_once:
  "filter_st (fst (btn_clear_onClick st)) = []
   \<and> value_st (fst (btn_clear_onClick st)) = Str []
   \<and> snd (btn_clear_onClick st) =
       (if value_st st \<noteq> Str [] \<and> onChange st then [Str []] else [])"
  by (simp add: btn_clear_onClick_def)

text \<open>
  C10. The clear button writes the filter text and the committed value only: the
  expansion flag, and the two configuration entries, are as before.
\<close>

theorem C10_clear_keeps_expanded:
  "fst (btn_clear_onClick st) = st\<lparr>filter_st := [], value_st := Str []\<rparr>
   \<and> expanded (fst (btn_clear_onClick st)) = expanded st
   \<and> alwaysExpanded (fst (btn_clear_onClick st)) = alwaysExpanded st
   \<and> onChange (fst (btn_clear_onClick st)) = onChange st"
  by (simp add: btn_clear_onClick_def)

text \<open>
  C9. \<open>handleInputChange\<close>, the handler of the focus event, ends with the panel expanded,
  whatever the text of the input and the \<open>expanded\<close> property: the assignment after the
  guarded one overrides it.
\<close>

theorem C9_focus_always_expands:
  "expanded (fst (handleInputChange m t (st, s))) = True
   \<and> filter_st (fst (handleInputChange m t (st, s))) = t"
  by (simp add: handleInputChange_def)

text \<open>
  The case the guard alone would collapse: the input is empty and the \<open>expanded\<close>
  property is not set.
\<close>

theorem C9_focus_always_expands_witness:
  "expanded (fst (handleInputChange
     \<lparr>inputBBox_width = 200, optionsBBox_y = 50, scrollHeight = 140, innerHeight = 200\<rparr> []
     (idle, \<lparr>style_width = Unset, style_height = Unset\<rparr>))) = True
   \<and> alwaysExpanded idle = False"
  using C9_focus_always_expands
    [of "\<lparr>inputBBox_width = 200, optionsBBox_y = 50, scrollHeight = 140, innerHeight = 200\<rparr>"
      "[]" idle "\<lparr>style_width = Unset, style_height = Unset\<rparr>"]
  by (simp add: idle_def)

section \<open>Geometry\<close>

text \<open>
  C7. Claimed: after every geometry pass the width of the panel is the width of the
  anchor minus 1, and the height is natural unless the top of the panel plus the natural
  height exceeds the window height minus 10, in which case it is exactly the window
  height minus 10 minus the top. Amended: the width is the width of the anchor minus 1
  when the anchor is at least 1 wide, and stays as it was otherwise; the height is cleared
  unless the top plus the scroll height exceeds the window height minus 10, in which case
  it is the window height minus 10 minus the top when the top is not beyond the window
  height minus 10, and stays as it was otherwise.
\<close>

theorem C7_panel_width_and_height:
  "style_width (resizeToBounds m s) =
     (if 1 \<le> inputBBox_width m then Px (inputBBox_width m - 1) else style_width s)
   \<and> style_height (resizeToBounds m s) =
       (if optionsBBox_y m + scrollHeight m > innerHeight m - 10
        then (if optionsBBox_y m \<le> innerHeight m - 10
              then Px (innerHeight m - 10 - optionsBBox_y m)
              else style_height s)
        else Unset)"
  by (simp add: resizeToBounds_def set_length_def add.commute)

theorem C7_panel_width_and_height_witness:
  "style_width (resizeToBounds
      \<lparr>inputBBox_width = 200, optionsBBox_y = 50, scrollHeight = 141, innerHeight = 200\<rparr>
      \<lparr>style_width = Unset, style_height = Unset\<rparr>) = Px 199
   \<and> style_height (resizeToBounds
      \<lparr>inputBBox_width = 200, optionsBBox_y = 50, scrollHeight = 141, innerHeight = 200\<rparr>
      \<lparr>style_width = Unset, style_height = Unset\<rparr>) = Px 140
   \<and> style_height (resizeToBounds
      \<lparr>inputBBox_width = 200, optionsBBox_y = 50, scrollHeight = 140, innerHeight = 200\<rparr>
      \<lparr>style_width = Unset, style_height = Px 77\<rparr>) = Unset"
  using C7_panel_width_and_height
    [of "\<lparr>inputBBox_width = 200, optionsBBox_y = 50, scrollHeight = 141, innerHeight = 200\<rparr>"
      "\<lparr>style_width = Unset, style_height = Unset\<rparr>"]
    C7_panel_width_and_height
    [of "\<lparr>inputBBox_width = 200, optionsBBox_y = 50, scrollHeight = 140, innerHeight = 200\<rparr>"
      "\<lparr>style_width = Unset, style_height = Px 77\<rparr>"]
  by simp

text \<open>
  An anchor of width 0 (a hidden input) and a panel whose top, 1000, is below a window
  of height 800: both lengths are negative, and the panel keeps the width and the height
  it had, where the claim asks for the width -1 and the height -210.
\<close>

theorem C7_negative_length_counterexample:
  "resizeToBounds
     \<lparr>inputBBox_width = 0, optionsBBox_y = 1000, scrollHeight = 100, innerHeight = 800\<rparr>
     \<lparr>style_width = Px 199, style_height = Unset\<rparr> =
   \<lparr>style_width = Px 199, style_height = Unset\<rparr>
   \<and> (1000::real) + 100 > 800 - 10
   \<and> style_width (resizeToBounds
        \<lparr>inputBBox_width = 0, optionsBBox_y = 1000, scrollHeight = 100, innerHeight = 800\<rparr>
        \<lparr>style_width = Px 199, style_height = Unset\<rparr>) \<noteq> Px (0 - 1)
   \<and> style_height (resizeToBounds
        \<lparr>inputBBox_width = 0, optionsBBox_y = 1000, scrollHeight = 100, innerHeight = 800\<rparr>
        \<lparr>style_width = Px 199, style_height = Unset\<rparr>) \<noteq> Px (800 - 10 - 1000)"
  by (simp add: resizeToBounds_def set_length_def)

lemma resize_fits:
  "resizeToBounds
     \<lparr>inputBBox_width = 200, optionsBBox_y = 50, scrollHeight = 140, innerHeight = 200\<rparr>
     \<lparr>style_width = Unset, style_height = Px 77\<rparr> =
   \<lparr>style_width = Px 199, style_height = Unset\<rparr>"
  by (simp add: resizeToBounds_def set_length_def)

lemma resize_clamped:
  "resizeToBounds
     \<lparr>inputBBox_width = 200, optionsBBox_y = 50, scrollHeight = 141, innerHeight = 200\<rparr>
     \<lparr>style_width = Unset, style_height = Unset\<rparr> =
   \<lparr>style_width = Px 199, style_height = Px 140\<rparr>"
  by (simp add: resizeToBounds_def set_length_def)

text \<open>
  C8. With the same measurements, a second run of \<open>resizeToBounds\<close> changes nothing:
  the style after two runs is the style after one.
\<close>

theorem C8_resize_idempotent:
  "resizeToBounds m (resizeToBounds m s) = resizeToBounds m s"
  by (simp add: resizeToBounds_def set_length_def Let_def)

end
